theory Spec2Isabelle
  imports Complex_Main
begin

section \<open>JavaScript strings\<close>

text \<open>
  A JavaScript string is a sequence of UTF-16 code units. It is modelled by a HOL
  \<open>string\<close> whose characters stand for the code units below 256 (ASCII and Latin-1);
  on these \<open>length\<close>, \<open>split\<close>, \<open>trim\<close> and \<open>toLowerCase\<close> below are the
  built-ins of the language. Code units from 256 on are outside the model.
\<close>

text \<open>\<open>s.split(sep)\<close> for a one-character separator: never empty, \<open>''.split(sep) = ['']\<close>.\<close>

fun split :: "char \<Rightarrow> string \<Rightarrow> string list" where
  "split sep [] = [[]]"
| "split sep (c # cs) =
     (if c = sep then [] # split sep cs
      else (case split sep cs of
              [] \<Rightarrow> [[c]]
            | x # xs \<Rightarrow> (c # x) # xs))"

text \<open>The white space and line terminators below 256 that \<open>trim\<close> removes.\<close>

definition isWhiteSpace :: "char \<Rightarrow> bool" where
  "isWhiteSpace c =
     (c \<in> set [CHR 0x09, CHR 0x0A, CHR 0x0B, CHR 0x0C, CHR 0x0D, CHR 0x20, CHR 0xA0])"

definition trimStart :: "string \<Rightarrow> string" where
  "trimStart s = dropWhile isWhiteSpace s"

definition trim :: "string \<Rightarrow> string" where
  "trim s = rev (dropWhile isWhiteSpace (rev (dropWhile isWhiteSpace s)))"

text \<open>\<open>toLowerCase\<close> on code units below 256: A-Z and the Latin-1 capitals move by 32.\<close>

definition toLowerChar :: "char \<Rightarrow> char" where
  "toLowerChar c =
     (let n = (of_char c :: nat)
      in if (65 \<le> n \<and> n \<le> 90) \<or> (192 \<le> n \<and> n \<le> 214) \<or> (216 \<le> n \<and> n \<le> 222)
         then char_of (n + 32) else c)"

definition toLowerCase :: "string \<Rightarrow> string" where
  "toLowerCase s = map toLowerChar s"

text \<open>
  A value that may be \<open>undefined\<close> is an option. Inside a template literal
  \<open>undefined\<close> prints as the text "undefined".
\<close>

definition str :: "string option \<Rightarrow> string" where
  "str v = (case v of None \<Rightarrow> ''undefined'' | Some s \<Rightarrow> s)"

text \<open>
  The exceptions of the import: a \<open>TypeError\<close> raised by a property access on
  \<open>undefined\<close>, and the error object that a failed store call reports and the code
  throws.
\<close>

datatype error = TypeError | StoreError

section \<open>Date normalisation\<close>

text \<open>
  The table \<open>monthMap\<close> of both \<open>parseMonthToDate\<close> functions. A key outside the table is
  \<open>undefined\<close> here; the names that a JavaScript object inherits from its prototype
  (such as \<open>constructor\<close>) are not modelled.
\<close>

definition monthMap :: "string \<Rightarrow> string option" where
  "monthMap = map_of
     [(''jan'', ''01''), (''feb'', ''02''), (''mar'', ''03''), (''apr'', ''04''),
      (''may'', ''05''), (''jun'', ''06''), (''jul'', ''07''), (''aug'', ''08''),
      (''sep'', ''09''), (''oct'', ''10''), (''nov'', ''11''), (''dec'', ''12'')]"

text \<open>
  \<open>parseMonthToDate\<close> of the edge function (the deduplicating import). The destructuring
  \<open>[month, year] = monthStr.split('-')\<close> leaves \<open>year\<close> undefined when the token has no
  \<open>-\<close>, and \<open>year.length\<close> then raises a \<open>TypeError\<close>.
\<close>

definition parseMonthToDate :: "string \<Rightarrow> error + string" where
  "parseMonthToDate monthStr =
     (case split CHR ''-'' monthStr of
        month # year # _ \<Rightarrow>
          (let monthLower = toLowerCase month;
               fullYear = (if length year = 2 then ''20'' @ year else year)
           in Inr (fullYear @ ''-'' @ str (monthMap monthLower) @ ''-01''))
      | _ \<Rightarrow> Inl TypeError)"

text \<open>
  \<open>parseMonthToDate\<close> of the client library \<open>src/lib/importCheckoutData.ts\<close>: it splits at
  \<open>_\<close>, does not change the case of the month and does not touch the year; an
  undefined year prints as "undefined" and nothing is raised.
\<close>

definition parseMonthToDate_client :: "string \<Rightarrow> string" where
  "parseMonthToDate_client monthStr =
     (case split CHR ''_'' monthStr of
        month # year # _ \<Rightarrow> year @ ''-'' @ str (monthMap month) @ ''-01''
      | [month] \<Rightarrow> ''undefined'' @ ''-'' @ str (monthMap month) @ ''-01''
      | [] \<Rightarrow> ''undefined-undefined-01'')"

section \<open>Numeric coercion\<close>

text \<open>
  A JavaScript number read from a decimal text. \<open>Num q\<close> carries the exact value of the
  decimal literal; the rounding of that value to the nearest double is not modelled
  (it keeps the sign, and every integer below \<open>2 ^ 53\<close>). The two zeros are one
  value, \<open>Num 0\<close>: both are falsy and \<open>||\<close> replaces both by \<open>0\<close>.
\<close>

datatype number = NaN | PosInfinity | NegInfinity | Num rat

definition isDigit :: "char \<Rightarrow> bool" where
  "isDigit c = (c \<in> set ''0123456789'')"

definition digitValue :: "char \<Rightarrow> int" where
  "digitValue c = of_char c - 48"

definition digitsValue :: "string \<Rightarrow> int" where
  "digitsValue ds = fold (\<lambda>c n. 10 * n + digitValue c) ds 0"

definition pow10 :: "int \<Rightarrow> rat" where
  "pow10 e = (if 0 \<le> e then 10 ^ nat e else 1 / 10 ^ nat (- e))"

text \<open>
  The value of an \<open>ExponentPart\<close> at the head of the text: \<open>e\<close> or \<open>E\<close>, an optional
  sign and at least one digit; anything else is no exponent, that is \<open>0\<close>.
\<close>

definition exponentPart :: "string \<Rightarrow> int" where
  "exponentPart s =
     (case s of
        [] \<Rightarrow> 0
      | e # r \<Rightarrow>
          if e = CHR ''e'' \<or> e = CHR ''E'' then
            (case r of
               [] \<Rightarrow> 0
             | sg # r' \<Rightarrow>
                 if sg = CHR ''-'' then - digitsValue (takeWhile isDigit r')
                 else if sg = CHR ''+'' then digitsValue (takeWhile isDigit r')
                 else digitsValue (takeWhile isDigit r))
          else 0)"

text \<open>
  The longest prefix that is a \<open>StrUnsignedDecimalLiteral\<close>: \<open>Infinity\<close>, or digits with
  an optional fraction and exponent, at least one digit before the exponent.
\<close>

definition unsignedDecimal :: "string \<Rightarrow> number" where
  "unsignedDecimal s =
     (if take 8 s = ''Infinity'' then PosInfinity
      else
        (let ip = takeWhile isDigit s;
             r1 = dropWhile isDigit s;
             hasDot = (r1 \<noteq> [] \<and> hd r1 = CHR ''.'');
             fp = (if hasDot then takeWhile isDigit (tl r1) else []);
             r2 = (if hasDot then dropWhile isDigit (tl r1) else r1)
         in if ip = [] \<and> fp = [] then NaN
            else Num (of_int (digitsValue (ip @ fp)) * pow10 (exponentPart r2 - int (length fp)))))"

definition negate :: "number \<Rightarrow> number" where
  "negate x =
     (case x of NaN \<Rightarrow> NaN | PosInfinity \<Rightarrow> NegInfinity | NegInfinity \<Rightarrow> PosInfinity
      | Num q \<Rightarrow> Num (- q))"

text \<open>The built-in \<open>parseFloat\<close>: leading white space is skipped, then an optional sign.\<close>

definition parseFloat :: "string \<Rightarrow> number" where
  "parseFloat s =
     (case trimStart s of
        [] \<Rightarrow> NaN
      | c # r \<Rightarrow>
          if c = CHR ''-'' then negate (unsignedDecimal r)
          else if c = CHR ''+'' then unsignedDecimal r
          else unsignedDecimal (c # r))"

text \<open>\<open>x || 0\<close> on a number: \<open>NaN\<close> and zero are falsy.\<close>

definition orZero :: "number \<Rightarrow> number" where
  "orZero x = (if x = NaN \<or> x = Num 0 then Num 0 else x)"

definition nonNegative :: "number \<Rightarrow> bool" where
  "nonNegative x = (case x of Num q \<Rightarrow> 0 \<le> q | PosInfinity \<Rightarrow> True | _ \<Rightarrow> False)"

section \<open>Rows and records\<close>

text \<open>
  The object \<open>row\<close> that the loop fills from the headers: a map from header names to
  field values, a later header of the same name overwriting an earlier one.
  \<open>values[index]?.trim() || ''\<close> is the trimmed field, or the empty string past the
  end of the line.
\<close>

type_synonym row = "string \<Rightarrow> string option"

definition buildRow :: "string list \<Rightarrow> string list \<Rightarrow> row" where
  "buildRow headers values =
     fold (\<lambda>(header, index) row.
             row(trim header \<mapsto> (if index < length values then trim (values ! index) else [])))
          (zip headers [0..<length headers]) Map.empty"

text \<open>\<open>values.every(v => !v || !v.trim())\<close>\<close>

definition isEmptyRow :: "string list \<Rightarrow> bool" where
  "isEmptyRow values = list_all (\<lambda>v. v = [] \<or> trim v = []) values"

text \<open>\<open>!v\<close> for a field of the row: undefined or the empty string.\<close>

definition falsy :: "string option \<Rightarrow> bool" where
  "falsy v = (v = None \<or> v = Some [])"

record merchant_record =
  pillar :: "string option"
  product_type :: "string option"
  brand_id :: "string option"
  merchant_name :: "string option"
  tpt :: number
  tpv :: number
  date :: string

text \<open>The deduplication key of the edge function, a template literal joined by \<open>-\<close>.\<close>

definition uniqueKey :: "row \<Rightarrow> string \<Rightarrow> string" where
  "uniqueKey row dt =
     str (row ''pillar'') @ ''-'' @ str (row ''brand_id'') @ ''-'' @ str (row ''merchant_name'')
       @ ''-'' @ str (row ''product_type'') @ ''-'' @ dt"

text \<open>\<open>row.tpv.replace(/,/g, '')\<close>\<close>

definition removeCommas :: "string \<Rightarrow> string" where
  "removeCommas s = filter (\<lambda>c. c \<noteq> CHR '','') s"

text \<open>
  The record pushed by the edge function. \<open>row.tpv.replace\<close> raises a \<open>TypeError\<close>
  when the row has no \<open>tpv\<close>; \<open>parseFloat\<close> of an undefined \<open>tpt\<close> reads the text
  "undefined".
\<close>

definition makeRecord :: "row \<Rightarrow> string \<Rightarrow> error + merchant_record" where
  "makeRecord row dt =
     (case row ''tpv'' of
        None \<Rightarrow> Inl TypeError
      | Some rawTpv \<Rightarrow>
          (let tpvValue = removeCommas rawTpv
           in Inr \<lparr>pillar = row ''pillar'', product_type = row ''product_type'',
                   brand_id = row ''brand_id'', merchant_name = row ''merchant_name'',
                   tpt = orZero (parseFloat (str (row ''tpt''))),
                   tpv = orZero (parseFloat tpvValue),
                   date = dt\<rparr>))"

text \<open>The record pushed by the client library: no comma is removed, nothing is raised.\<close>

definition makeRecord_client :: "row \<Rightarrow> string \<Rightarrow> merchant_record" where
  "makeRecord_client row dt =
     \<lparr>pillar = row ''pillar'', product_type = row ''product_type'',
      brand_id = row ''brand_id'', merchant_name = row ''merchant_name'',
      tpt = orZero (parseFloat (str (row ''tpt''))),
      tpv = orZero (parseFloat (str (row ''tpv''))),
      date = dt\<rparr>"

text \<open>\<open>parseMonthToDate(row.month)\<close>: \<open>monthStr.split\<close> raises on an undefined month.\<close>

definition rowDate :: "row \<Rightarrow> error + string" where
  "rowDate row = (case row ''month'' of None \<Rightarrow> Inl TypeError | Some m \<Rightarrow> parseMonthToDate m)"

text \<open>
  The loop over the data lines of the edge function (\<open>for (let i = 1; ...)\<close>), with its
  three variables \<open>records\<close>, \<open>seenKeys\<close> and \<open>duplicatesSkipped\<close>.
\<close>

fun processLines ::
  "string list \<Rightarrow> string list \<Rightarrow> merchant_record list \<Rightarrow> string set \<Rightarrow> nat
   \<Rightarrow> error + (merchant_record list \<times> nat)" where
  "processLines headers [] records seenKeys duplicatesSkipped = Inr (records, duplicatesSkipped)"
| "processLines headers (line # rest) records seenKeys duplicatesSkipped =
     (let values = split CHR '';'' line;
          row = buildRow headers values
      in if isEmptyRow values then processLines headers rest records seenKeys duplicatesSkipped
         else if falsy (row ''pillar'') \<or> falsy (row ''brand_id'')
         then processLines headers rest records seenKeys duplicatesSkipped
         else (case rowDate row of
                 Inl e \<Rightarrow> Inl e
               | Inr dt \<Rightarrow>
                   if uniqueKey row dt \<in> seenKeys
                   then processLines headers rest records seenKeys (duplicatesSkipped + 1)
                   else (case makeRecord row dt of
                           Inl e \<Rightarrow> Inl e
                         | Inr r \<Rightarrow>
                             processLines headers rest (records @ [r])
                               (insert (uniqueKey row dt) seenKeys) duplicatesSkipped)))"

text \<open>
  Lines 48 to 97 of the edge function: the content is trimmed and split into lines, the
  first line gives the trimmed headers (\<open>split\<close> never returns the empty list, so
  \<open>hd\<close> and \<open>tl\<close> are \<open>lines[0]\<close> and the lines from index 1). A leading U+FEFF,
  which line 49 removes, is a code unit outside the modelled range.
\<close>

definition dataLines :: "string \<Rightarrow> string list" where
  "dataLines csvContent = tl (split CHR 0x0A (trim csvContent))"

definition headersOf :: "string \<Rightarrow> string list" where
  "headersOf csvContent = map trim (split CHR '';'' (hd (split CHR 0x0A (trim csvContent))))"

definition parseRecords :: "string \<Rightarrow> error + (merchant_record list \<times> nat)" where
  "parseRecords csvContent =
     processLines (headersOf csvContent) (dataLines csvContent) [] {} 0"

section \<open>The store\<close>

text \<open>
  The table \<open>merchant_data\<close> behind the client object \<open>supabase\<close> is an external
  collaborator. Its model: the rows with their \<open>id\<close> column, the calls issued so
  far, and for the calls to come whether each reports an error (\<open>True\<close>; an exhausted
  list means success). A call that reports an error changes no row. \<open>uuids\<close> stands for
  the column default \<open>gen_random_uuid()\<close>.
\<close>

record stored_row =
  row_id :: string
  row_data :: merchant_record

datatype call = DeleteNeqId string | Insert "merchant_record list"

record store =
  rows :: "stored_row list"
  calls :: "call list"
  faults :: "bool list"
  uuids :: "nat \<Rightarrow> string"
  generated :: nat

definition fails :: "store \<Rightarrow> bool" where
  "fails st = (case faults st of [] \<Rightarrow> False | f # _ \<Rightarrow> f)"

text \<open>\<open>.delete().neq('id', v)\<close>: delete the rows whose \<open>id\<close> is not \<open>v\<close>.\<close>

definition deleteNeqId :: "string \<Rightarrow> store \<Rightarrow> error option \<times> store" where
  "deleteNeqId v st =
     (let st1 = st\<lparr>calls := calls st @ [DeleteNeqId v], faults := tl (faults st)\<rparr>
      in if fails st then (Some StoreError, st1)
         else (None, st1\<lparr>rows := filter (\<lambda>r. \<not> (row_id r \<noteq> v)) (rows st)\<rparr>))"

text \<open>\<open>.insert(batch).select()\<close>: append the batch, each row with a generated id.\<close>

definition insertRows :: "merchant_record list \<Rightarrow> store \<Rightarrow> error option \<times> store" where
  "insertRows batch st =
     (let st1 = st\<lparr>calls := calls st @ [Insert batch], faults := tl (faults st)\<rparr>
      in if fails st then (Some StoreError, st1)
         else (None, st1\<lparr>rows := rows st @
                               map (\<lambda>(k, r). \<lparr>row_id = uuids st (generated st + k), row_data = r\<rparr>)
                                 (zip [0..<length batch] batch),
                            generated := generated st + length batch\<rparr>))"

section \<open>The deduplicating import of the edge function\<close>

definition nilUuid :: string where
  "nilUuid = ''00000000-0000-0000-0000-000000000000''"

text \<open>Lines 34 to 46: the purge when \<open>clearExisting\<close> is set.\<close>

definition clearExistingData :: "bool \<Rightarrow> store \<Rightarrow> error option \<times> store" where
  "clearExistingData clearExisting st =
     (if clearExisting then deleteNeqId nilUuid st else (None, st))"

definition batchSize :: nat where
  "batchSize = 500"

text \<open>
  Lines 105 to 121: the loop over the batches; \<open>records.slice(i, i + batchSize)\<close> is
  \<open>take batchSize (drop i records)\<close>. The first failing call throws.
\<close>

function insertBatches ::
  "merchant_record list \<Rightarrow> nat \<Rightarrow> nat \<Rightarrow> store \<Rightarrow> (error + nat) \<times> store" where
  "insertBatches records i totalInserted st =
     (if i < length records then
        (let batch = take batchSize (drop i records)
         in case insertRows batch st of
              (Some e, st') \<Rightarrow> (Inl e, st')
            | (None, st') \<Rightarrow> insertBatches records (i + batchSize) (totalInserted + length batch) st')
      else (Inr totalInserted, st))"
  by pat_completeness auto
termination
  by (relation "measure (\<lambda>(records, i, totalInserted, st). length records - i)")
     (auto simp: batchSize_def)

record import_result =
  imported :: nat
  duplicatesSkipped :: nat
  cleared :: bool
  errors :: nat
  message :: string

text \<open>
  Lines 99 to 129: the records are handed to the loop over the batches, and the result
  object counts \<open>records.length\<close>, not \<open>totalInserted\<close>.
\<close>

definition loadRecords ::
  "merchant_record list \<Rightarrow> nat \<Rightarrow> bool \<Rightarrow> store \<Rightarrow> (error + import_result) \<times> store" where
  "loadRecords records dups clearExisting st =
     (case insertBatches records 0 0 st of
        (Inl e, st') \<Rightarrow> (Inl e, st')
      | (Inr totalInserted, st') \<Rightarrow>
          (Inr \<lparr>imported = length records, duplicatesSkipped = dups,
                cleared = clearExisting, errors = 0,
                message = ''Data imported successfully''\<rparr>, st'))"

text \<open>
  \<open>importCheckoutData(csvContent, supabase, clearExisting)\<close> of the edge function. The
  \<open>catch\<close> rethrows, so an exception is the result \<open>Inl\<close>; the store is returned as the
  calls left it.
\<close>

definition importCheckoutData ::
  "string \<Rightarrow> store \<Rightarrow> bool \<Rightarrow> (error + import_result) \<times> store" where
  "importCheckoutData csvContent st clearExisting =
     (case clearExistingData clearExisting st of
        (Some deleteError, st1) \<Rightarrow> (Inl deleteError, st1)
      | (None, st1) \<Rightarrow>
          (case parseRecords csvContent of
             Inl e \<Rightarrow> (Inl e, st1)
           | Inr (records, dups) \<Rightarrow> loadRecords records dups clearExisting st1))"

section \<open>The HTTP handler\<close>

text \<open>
  The request after \<open>req.json()\<close>: the method and the two fields of the body, each
  possibly absent. The text of the field \<open>error\<close> of a failure body depends on the
  error object and is kept as the error itself.
\<close>

record request =
  http_method :: string
  csvContent :: "string option"
  clearExisting :: "bool option"

datatype body =
    NoBody
  | CsvRequired
  | Success import_result
  | Failure (failure_error: error) (failure_imported: nat) (failure_skipped: nat)
      (failure_errors: nat) (failure_message: string)

record response =
  status :: nat
  body :: body

text \<open>The two ends of the handler: the response to a result, and the \<open>catch\<close> branch.\<close>

definition respond :: "error + import_result \<Rightarrow> response" where
  "respond outcome =
     (case outcome of
        Inr result \<Rightarrow> \<lparr>status = 200, body = Success result\<rparr>
      | Inl e \<Rightarrow> \<lparr>status = 500, body = Failure e 0 0 1 ''Import failed''\<rparr>)"

definition serve :: "request \<Rightarrow> store \<Rightarrow> response \<times> store" where
  "serve req st =
     (if http_method req = ''OPTIONS'' then (\<lparr>status = 200, body = NoBody\<rparr>, st)
      else if falsy (csvContent req) then (\<lparr>status = 400, body = CsvRequired\<rparr>, st)
      else
        (case importCheckoutData (str (csvContent req)) st
                (case clearExisting req of None \<Rightarrow> False | Some b \<Rightarrow> b) of
           (outcome, st') \<Rightarrow> (respond outcome, st')))"

section \<open>The import of the client library\<close>

text \<open>
  \<open>src/lib/importCheckoutData.ts\<close>: no deduplication, the headers are trimmed only when
  the row is built, one insert call for all records, and every exception is caught and
  turned into a result with \<open>errors: 1\<close>.
\<close>

fun processLines_client ::
  "string list \<Rightarrow> string list \<Rightarrow> merchant_record list \<Rightarrow> error + merchant_record list" where
  "processLines_client headers [] records = Inr records"
| "processLines_client headers (line # rest) records =
     (let values = split CHR '';'' line;
          row = buildRow headers values
      in if isEmptyRow values then processLines_client headers rest records
         else if falsy (row ''pillar'') \<or> falsy (row ''brand_id'')
         then processLines_client headers rest records
         else (case row ''month'' of
                 None \<Rightarrow> Inl TypeError
               | Some m \<Rightarrow>
                   processLines_client headers rest
                     (records @ [makeRecord_client row (parseMonthToDate_client m)])))"

definition parseRecords_client :: "string \<Rightarrow> error + merchant_record list" where
  "parseRecords_client content =
     processLines_client (split CHR '';'' (hd (split CHR 0x0A (trim content))))
       (tl (split CHR 0x0A (trim content))) []"

record client_result =
  client_imported :: nat
  client_skipped :: nat
  client_errors :: nat

definition importCheckoutData_client :: "string \<Rightarrow> store \<Rightarrow> client_result \<times> store" where
  "importCheckoutData_client content st =
     (case parseRecords_client content of
        Inl e \<Rightarrow> (\<lparr>client_imported = 0, client_skipped = 0, client_errors = 1\<rparr>, st)
      | Inr records \<Rightarrow>
          (case insertRows records st of
             (Some e, st') \<Rightarrow>
               (\<lparr>client_imported = 0, client_skipped = 0, client_errors = 1\<rparr>, st')
           | (None, st') \<Rightarrow>
               (\<lparr>client_imported = length records, client_skipped = 0, client_errors = 0\<rparr>,
                st')))"

section \<open>Notions used in the statements\<close>

text \<open>The text handed to \<open>parseFloat\<close> begins, after white space, with a minus sign.\<close>

definition hasMinusSign :: "string \<Rightarrow> bool" where
  "hasMinusSign s = (take 1 (trimStart s) = ''-'')"

text \<open>The identity tuple of a record, and the key it is deduplicated by.\<close>

definition identity ::
  "merchant_record \<Rightarrow> string option \<times> string option \<times> string option \<times> string option \<times> string" where
  "identity r = (pillar r, brand_id r, merchant_name r, product_type r, date r)"

definition recordKey :: "merchant_record \<Rightarrow> string" where
  "recordKey r =
     str (pillar r) @ ''-'' @ str (brand_id r) @ ''-'' @ str (merchant_name r)
       @ ''-'' @ str (product_type r) @ ''-'' @ date r"

text \<open>
  A data line that counts: not all fields empty, and the fields under the headers
  \<open>pillar\<close> and \<open>brand_id\<close> not empty after trimming.
\<close>

definition countedLine :: "string list \<Rightarrow> string \<Rightarrow> bool" where
  "countedLine headers line =
     (\<not> isEmptyRow (split CHR '';'' line)
      \<and> \<not> falsy (buildRow headers (split CHR '';'' line) ''pillar'')
      \<and> \<not> falsy (buildRow headers (split CHR '';'' line) ''brand_id''))"

text \<open>The inputs of the scenarios.\<close>

definition scenarioHeader :: string where
  "scenarioHeader = ''pillar;product_type;brand_id;merchant_name;tpt;tpv;month''"

definition emptyStore :: store where
  "emptyStore = \<lparr>rows = [], calls = [], faults = [], uuids = (\<lambda>n. replicate (Suc n) CHR ''u''),
                  generated = 0\<rparr>"

definition exampleRow :: row where
  "exampleRow = buildRow (map trim (split CHR '';'' scenarioHeader))
                  (split CHR '';'' ''Wallets_Billing;PayChat;B1;Acme;10;1,000;jan-25'')"

definition exampleRecord :: merchant_record where
  "exampleRecord =
     \<lparr>pillar = Some ''Wallets_Billing'', product_type = Some ''PayChat'', brand_id = Some ''B1'',
      merchant_name = Some ''Acme'', tpt = Num 10, tpv = Num 1000, date = ''2025-01-01''\<rparr>"

definition negativeCsv :: string where
  "negativeCsv = scenarioHeader @ [CHR 0x0A] @ ''Wallets_Billing;PayChat;B1;Acme;-5;-1,000;jan-25''"

definition commaCsv :: string where
  "commaCsv = scenarioHeader @ [CHR 0x0A] @ ''Wallets_Billing;PayChat;B1;Acme;;1,234,567;jan-25''"

definition commaCsv_client :: string where
  "commaCsv_client =
     scenarioHeader @ [CHR 0x0A] @ ''Wallets_Billing;PayChat;B1;Acme;;1,234,567;jan_2025''"

definition scenarioCsv :: string where
  "scenarioCsv = scenarioHeader
     @ [CHR 0x0A] @ ''Wallets_Billing;PayChat;B1;Acme;10;1,000;jan_25''
     @ [CHR 0x0A] @ ''Wallets_Billing;PayChat;B1;Acme;10;1,000;jan_25''"

definition hyphenCsv :: string where
  "hyphenCsv = scenarioHeader
     @ [CHR 0x0A] @ ''Wallets_Billing;PayChat;B1;Acme;10;1,000;jan-25''
     @ [CHR 0x0A] @ ''Wallets_Billing;PayChat;B1;Acme;10;1,000;jan-25''"

text \<open>
  Five data lines: a record, its duplicate, a line of empty fields, a line without
  pillar, and a second record.
\<close>

definition dedupCsv :: string where
  "dedupCsv = scenarioHeader
     @ [CHR 0x0A] @ ''Wallets_Billing;PayChat;B1;Acme;10;1,000;jan-25''
     @ [CHR 0x0A] @ ''Wallets_Billing;PayChat;B1;Acme;10;1,000;jan-25''
     @ [CHR 0x0A] @ '';;;;;;''
     @ [CHR 0x0A] @ '';PayChat;B3;NoPillar;1;1;jan-25''
     @ [CHR 0x0A] @ ''Wallets_Billing;PayChat;B2;Bolt;7;70;feb-2025''"

definition secondRecord :: merchant_record where
  "secondRecord =
     \<lparr>pillar = Some ''Wallets_Billing'', product_type = Some ''PayChat'', brand_id = Some ''B2'',
      merchant_name = Some ''Bolt'', tpt = Num 7, tpv = Num 70, date = ''2025-02-01''\<rparr>"

text \<open>Two rows that differ in pillar and brand id and share the joined key.\<close>

definition collisionCsv :: string where
  "collisionCsv = scenarioHeader
     @ [CHR 0x0A] @ ''a-b;T;c;M;1;2;jan-25''
     @ [CHR 0x0A] @ ''a;T;b-c;M;3;4;jan-25''"

definition collisionFirst :: merchant_record where
  "collisionFirst =
     \<lparr>pillar = Some ''a-b'', product_type = Some ''T'', brand_id = Some ''c'',
      merchant_name = Some ''M'', tpt = Num 1, tpv = Num 2, date = ''2025-01-01''\<rparr>"

definition collisionSecond :: merchant_record where
  "collisionSecond =
     \<lparr>pillar = Some ''a'', product_type = Some ''T'', brand_id = Some ''b-c'',
      merchant_name = Some ''M'', tpt = Num 3, tpv = Num 4, date = ''2025-01-01''\<rparr>"

definition collisionSecondRow :: row where
  "collisionSecondRow = buildRow (map trim (split CHR '';'' scenarioHeader))
                          (split CHR '';'' ''a;T;b-c;M;3;4;jan-25'')"

text \<open>A store that holds a row under the nil UUID and a row under another id.\<close>

definition seededStore :: store where
  "seededStore =
     emptyStore\<lparr>rows := [\<lparr>row_id = nilUuid, row_data = exampleRecord\<rparr>,
                          \<lparr>row_id = ''7f9c24e8-3b12-4fef-91e0-5c1d2a6b8e34'', row_data = secondRecord\<rparr>]\<rparr>"

text \<open>1200 records that differ in their brand id.\<close>

definition records1200 :: "merchant_record list" where
  "records1200 = map (\<lambda>k. exampleRecord\<lparr>brand_id := Some (replicate (Suc k) CHR ''B'')\<rparr>) [0..<1200]"

section \<open>Facts about the string functions\<close>

lemma split_no_separator: "sep \<notin> set xs \<Longrightarrow> split sep xs = [xs]"
  by (induction xs) auto

lemma split_at_separator:
  "sep \<notin> set xs \<Longrightarrow> split sep (xs @ sep # ys) = xs # split sep ys"
  by (induction xs) auto

lemma split_not_empty: "split sep s \<noteq> []"
  by (induction s) (auto split: list.splits)

section \<open>Date normalisation: the two-digit year\<close>

text \<open>
  C2, as the edge function has it. For a token \<open>month-year\<close> whose month, in any
  letter case, is one of the twelve abbreviations and whose year has two characters,
  \<open>parseMonthToDate\<close> returns the year prefixed with \<open>20\<close>, the number of the month and
  the day \<open>01\<close>. The separator is \<open>-\<close>: the token is \<open>jan-25\<close>, not \<open>jan_25\<close>.
\<close>

theorem parseMonthToDate_two_digit_year:
  assumes "monthMap (toLowerCase month) = Some mm"
    and "CHR ''-'' \<notin> set month" and "CHR ''-'' \<notin> set year" and "length year = 2"
  shows "parseMonthToDate (month @ ''-'' @ year) = Inr (''20'' @ year @ ''-'' @ mm @ ''-01'')"
proof -
  have "split CHR ''-'' (month @ ''-'' @ year) = [month, year]"
    using assms(2,3) by (simp add: split_at_separator split_no_separator)
  then show ?thesis
    using assms(1,4) by (simp add: parseMonthToDate_def str_def)
qed

theorem parseMonthToDate_two_digit_year_witness:
  "parseMonthToDate ''jan-25'' = Inr ''2025-01-01''"
proof -
  have m: "monthMap (toLowerCase ''jan'') = Some ''01''" by code_simp
  show ?thesis
    using parseMonthToDate_two_digit_year [OF m, of "''25''"] by simp
qed

text \<open>
  The token \<open>jan_25\<close> itself: the edge function finds no \<open>-\<close> in it and raises a
  \<open>TypeError\<close>; the client library returns the year as it is written.
\<close>

theorem jan_25_counterexample:
  "parseMonthToDate ''jan_25'' = Inl TypeError
   \<and> parseMonthToDate_client ''jan_25'' = ''25-01-01''
   \<and> parseMonthToDate_client ''jan_25'' \<noteq> ''2025-01-01''"
  by code_simp

section \<open>Numeric coercion: what the records carry\<close>

lemma digitValue_nonneg: "isDigit c \<Longrightarrow> 0 \<le> digitValue c"
  by (auto simp: isDigit_def digitValue_def)

lemma fold_digits_nonneg:
  "list_all isDigit ds \<Longrightarrow> 0 \<le> n \<Longrightarrow> 0 \<le> fold (\<lambda>c n. 10 * n + digitValue c) ds n"
  by (induction ds arbitrary: n) (auto simp: digitValue_nonneg)

lemma digitsValue_nonneg: "list_all isDigit ds \<Longrightarrow> 0 \<le> digitsValue ds"
  by (simp add: digitsValue_def fold_digits_nonneg)

lemma takeWhile_digits: "list_all isDigit (takeWhile isDigit s)"
  by (induction s) auto

lemma pow10_pos: "0 < pow10 e"
  by (simp add: pow10_def)

lemma decimal_value_nonneg:
  "list_all isDigit ds \<Longrightarrow> 0 \<le> (of_int (digitsValue ds) :: rat) * pow10 e"
  using pow10_pos [of e] by (simp add: digitsValue_nonneg)

lemma unsignedDecimal_nonneg:
  "unsignedDecimal s = NaN \<or> nonNegative (unsignedDecimal s)"
  by (simp add: unsignedDecimal_def nonNegative_def Let_def decimal_value_nonneg
      takeWhile_digits)

lemma orZero_not_NaN: "orZero x \<noteq> NaN"
  by (simp add: orZero_def)

lemma orZero_nonNegative: "x = NaN \<or> nonNegative x \<Longrightarrow> nonNegative (orZero x)"
  by (auto simp: orZero_def nonNegative_def)

lemma coerce_nonNegative: "\<not> hasMinusSign s \<Longrightarrow> nonNegative (orZero (parseFloat s))"
proof (rule orZero_nonNegative)
  assume "\<not> hasMinusSign s"
  then show "parseFloat s = NaN \<or> nonNegative (parseFloat s)"
    using unsignedDecimal_nonneg
    by (auto simp: parseFloat_def hasMinusSign_def split: list.splits)
qed

text \<open>
  C7, as the code has it. The \<open>tpt\<close> and \<open>tpv\<close> of every record that either path builds
  are numbers, never \<open>NaN\<close>, and each is non-negative whenever the text handed to
  \<open>parseFloat\<close> (the \<open>tpt\<close> field; the \<open>tpv\<close> field, on the edge function with its commas
  removed) does not begin with a minus sign. Nothing rejects a negative numeral.
\<close>

theorem coerced_fields:
  assumes "makeRecord row dt = Inr r" and "row ''tpv'' = Some raw"
  shows "tpt r \<noteq> NaN \<and> tpv r \<noteq> NaN
    \<and> (\<not> hasMinusSign (str (row ''tpt'')) \<longrightarrow> nonNegative (tpt r))
    \<and> (\<not> hasMinusSign (removeCommas raw) \<longrightarrow> nonNegative (tpv r))
    \<and> tpt (makeRecord_client row dt) \<noteq> NaN \<and> tpv (makeRecord_client row dt) \<noteq> NaN
    \<and> (\<not> hasMinusSign (str (row ''tpt'')) \<longrightarrow> nonNegative (tpt (makeRecord_client row dt)))
    \<and> (\<not> hasMinusSign raw \<longrightarrow> nonNegative (tpv (makeRecord_client row dt)))"
proof -
  from assms have r: "tpt r = orZero (parseFloat (str (row ''tpt'')))"
      "tpv r = orZero (parseFloat (removeCommas raw))"
    by (auto simp: makeRecord_def)
  have c: "tpt (makeRecord_client row dt) = orZero (parseFloat (str (row ''tpt'')))"
      "tpv (makeRecord_client row dt) = orZero (parseFloat raw)"
    using assms(2) by (simp_all add: makeRecord_client_def str_def)
  show ?thesis
    unfolding r c by (simp add: orZero_not_NaN coerce_nonNegative)
qed

theorem coerced_fields_witness:
  "makeRecord exampleRow ''2025-01-01'' = Inr exampleRecord
   \<and> \<not> hasMinusSign (str (exampleRow ''tpt'')) \<and> \<not> hasMinusSign (removeCommas ''1,000'')
   \<and> tpt exampleRecord \<noteq> NaN \<and> tpv exampleRecord \<noteq> NaN
   \<and> nonNegative (tpt exampleRecord) \<and> nonNegative (tpv exampleRecord)"
proof -
  have h1: "makeRecord exampleRow ''2025-01-01'' = Inr exampleRecord" by code_simp
  have h2: "exampleRow ''tpv'' = Some ''1,000''" by code_simp
  have h3: "\<not> hasMinusSign (str (exampleRow ''tpt''))" by code_simp
  have h4: "\<not> hasMinusSign (removeCommas ''1,000'')" by code_simp
  show ?thesis
    using coerced_fields [OF h1 h2] h1 h3 h4 by simp
qed

text \<open>A row whose \<open>tpt\<close> is \<open>-5\<close> and whose \<open>tpv\<close> is \<open>-1,000\<close> is accepted with negative values.\<close>

theorem negative_fields_counterexample:
  "parseRecords negativeCsv =
     Inr ([\<lparr>pillar = Some ''Wallets_Billing'', product_type = Some ''PayChat'',
             brand_id = Some ''B1'', merchant_name = Some ''Acme'',
             tpt = Num (- 5), tpv = Num (- 1000), date = ''2025-01-01''\<rparr>], 0)
   \<and> \<not> nonNegative (Num (- 5)) \<and> \<not> nonNegative (Num (- 1000))"
  by code_simp

text \<open>
  C3 at its failing input. The edge function removes the commas of \<open>1,234,567\<close> before
  parsing; the client library parses the field as it is, and \<open>parseFloat\<close> stops at the
  first comma. The empty \<open>tpt\<close> is \<open>0\<close> on both paths.
\<close>

theorem comma_tpv_on_both_paths:
  "parseRecords commaCsv =
     Inr ([\<lparr>pillar = Some ''Wallets_Billing'', product_type = Some ''PayChat'',
             brand_id = Some ''B1'', merchant_name = Some ''Acme'',
             tpt = Num 0, tpv = Num 1234567, date = ''2025-01-01''\<rparr>], 0)
   \<and> parseRecords_client commaCsv_client =
     Inr [\<lparr>pillar = Some ''Wallets_Billing'', product_type = Some ''PayChat'',
            brand_id = Some ''B1'', merchant_name = Some ''Acme'',
            tpt = Num 0, tpv = Num 1, date = ''2025-01-01''\<rparr>]"
  by code_simp

section \<open>The deduplicating loop\<close>

lemma processLines_skip:
  "\<not> countedLine headers line
   \<Longrightarrow> processLines headers (line # rest) records seen d = processLines headers rest records seen d"
  by (auto simp: countedLine_def Let_def)

lemma processLines_counted:
  "countedLine headers line
   \<Longrightarrow> processLines headers (line # rest) records seen d =
       (case rowDate (buildRow headers (split CHR '';'' line)) of
          Inl e \<Rightarrow> Inl e
        | Inr dt \<Rightarrow>
            if uniqueKey (buildRow headers (split CHR '';'' line)) dt \<in> seen
            then processLines headers rest records seen (d + 1)
            else (case makeRecord (buildRow headers (split CHR '';'' line)) dt of
                    Inl e \<Rightarrow> Inl e
                  | Inr r \<Rightarrow>
                      processLines headers rest (records @ [r])
                        (insert (uniqueKey (buildRow headers (split CHR '';'' line)) dt) seen) d))"
  by (auto simp: countedLine_def Let_def)

declare processLines.simps(2) [simp del]

lemma makeRecord_key: "makeRecord row dt = Inr r \<Longrightarrow> recordKey r = uniqueKey row dt"
  by (auto simp: makeRecord_def recordKey_def uniqueKey_def split: option.splits)

lemma processLines_count:
  "processLines headers lines records seen d = Inr (records', d')
   \<Longrightarrow> length records' + d' = length records + d + length (filter (countedLine headers) lines)"
proof (induction lines arbitrary: records seen d)
  case Nil
  then show ?case by simp
next
  case (Cons line rest)
  show ?case
  proof (cases "countedLine headers line")
    case False
    then show ?thesis
      using Cons.prems Cons.IH by (simp add: processLines_skip)
  next
    case True
    let ?row = "buildRow headers (split CHR '';'' line)"
    from True Cons.prems obtain dt where dt: "rowDate ?row = Inr dt"
      by (auto simp: processLines_counted split: sum.splits)
    show ?thesis
    proof (cases "uniqueKey ?row dt \<in> seen")
      case dup: True
      with True dt Cons.prems
      have "processLines headers rest records seen (d + 1) = Inr (records', d')"
        by (simp add: processLines_counted)
      from Cons.IH [OF this] True show ?thesis by simp
    next
      case fresh: False
      with True dt Cons.prems obtain r where
        "processLines headers rest (records @ [r]) (insert (uniqueKey ?row dt) seen) d
         = Inr (records', d')"
        by (auto simp: processLines_counted split: sum.splits)
      from Cons.IH [OF this] True show ?thesis by simp
    qed
  qed
qed

lemma processLines_distinct:
  "processLines headers lines records (set (map recordKey records)) d = Inr (records', d')
   \<Longrightarrow> distinct (map recordKey records)
   \<Longrightarrow> distinct (map recordKey records')"
proof (induction lines arbitrary: records d)
  case Nil
  then show ?case by simp
next
  case (Cons line rest)
  let ?row = "buildRow headers (split CHR '';'' line)"
  show ?case
  proof (cases "countedLine headers line")
    case False
    then show ?thesis
      using Cons.prems Cons.IH by (simp add: processLines_skip)
  next
    case True
    with Cons.prems(1) obtain dt where dt: "rowDate ?row = Inr dt"
      by (auto simp: processLines_counted split: sum.splits)
    show ?thesis
    proof (cases "uniqueKey ?row dt \<in> set (map recordKey records)")
      case dup: True
      with True dt Cons.prems(1)
      have "processLines headers rest records (set (map recordKey records)) (d + 1) = Inr (records', d')"
        by (simp add: processLines_counted)
      then show ?thesis using Cons.IH Cons.prems(2) by blast
    next
      case fresh: False
      with True dt Cons.prems(1) obtain r where r: "makeRecord ?row dt = Inr r"
        and rest: "processLines headers rest (records @ [r])
                     (insert (uniqueKey ?row dt) (set (map recordKey records))) d = Inr (records', d')"
        by (auto simp: processLines_counted split: sum.splits)
      have k: "recordKey r = uniqueKey ?row dt"
        using r by (rule makeRecord_key)
      have "processLines headers rest (records @ [r]) (set (map recordKey (records @ [r]))) d
            = Inr (records', d')"
        using rest k by simp
      moreover have "distinct (map recordKey (records @ [r]))"
        using Cons.prems(2) fresh k by simp
      ultimately show ?thesis using Cons.IH by blast
    qed
  qed
qed

lemma distinct_map_finer:
  assumes fg: "\<And>x y. g x = g y \<Longrightarrow> f x = f y"
  shows "distinct (map f xs) \<Longrightarrow> distinct (map g xs)"
proof (induction xs)
  case Nil
  show ?case by simp
next
  case (Cons x xs)
  have "g x \<notin> g ` set xs"
  proof
    assume "g x \<in> g ` set xs"
    then obtain y where y: "y \<in> set xs" "g x = g y" by auto
    from fg [OF y(2)] y(1) have "f x \<in> f ` set xs" by (rule image_eqI)
    with Cons.prems show False by simp
  qed
  moreover from Cons.prems have "distinct (map f xs)" by simp
  then have "distinct (map g xs)" by (rule Cons.IH)
  ultimately show ?case by simp
qed

lemma identity_key: "identity x = identity y \<Longrightarrow> recordKey x = recordKey y"
  by (simp add: identity_def recordKey_def)

text \<open>
  C8. The records that one run of the deduplicating loop accepts have pairwise
  distinct identity tuples (pillar, brand id, merchant name, product type, date): no
  two positions of the accepted list carry the same tuple.
\<close>

theorem accepted_records_distinct:
  assumes "parseRecords csv = Inr (records, d)"
  shows "distinct (map identity records)"
proof -
  from assms
  have "processLines (headersOf csv) (dataLines csv) [] (set (map recordKey [])) 0
        = Inr (records, d)"
    by (simp add: parseRecords_def)
  then have "distinct (map recordKey records)"
    by (rule processLines_distinct) simp
  with identity_key show ?thesis
    by (rule distinct_map_finer)
qed

theorem accepted_records_distinct_witness:
  "parseRecords dedupCsv = Inr ([exampleRecord, secondRecord], 1)
   \<and> distinct (map identity [exampleRecord, secondRecord])"
proof -
  have h: "parseRecords dedupCsv = Inr ([exampleRecord, secondRecord], 1)" by code_simp
  show ?thesis
    using accepted_records_distinct [OF h] h by simp
qed

section \<open>The store calls and the batches\<close>

declare insertBatches.simps [simp del]

lemma insertRows_fails:
  "fails st \<Longrightarrow> insertRows batch st =
     (Some StoreError, st\<lparr>calls := calls st @ [Insert batch], faults := tl (faults st)\<rparr>)"
  by (simp add: insertRows_def Let_def)

lemma insertRows_succeeds:
  assumes "\<not> fails st"
  shows "fst (insertRows batch st) = None"
    and "calls (snd (insertRows batch st)) = calls st @ [Insert batch]"
    and "faults (snd (insertRows batch st)) = tl (faults st)"
    and "map row_data (rows (snd (insertRows batch st))) = map row_data (rows st) @ batch"
proof -
  have "map (row_data \<circ> (\<lambda>(k, r). \<lparr>row_id = uuids st (generated st + k), row_data = r\<rparr>))
          (zip [0..<length batch] batch) = map snd (zip [0..<length batch] batch)"
    by (rule map_cong) auto
  then have "map row_data (map (\<lambda>(k, r). \<lparr>row_id = uuids st (generated st + k), row_data = r\<rparr>)
          (zip [0..<length batch] batch)) = batch"
    by simp
  with assms show "fst (insertRows batch st) = None"
    and "calls (snd (insertRows batch st)) = calls st @ [Insert batch]"
    and "faults (snd (insertRows batch st)) = tl (faults st)"
    and "map row_data (rows (snd (insertRows batch st))) = map row_data (rows st) @ batch"
    by (simp_all add: insertRows_def Let_def)
qed

lemma insertBatches_done:
  "length records \<le> i \<Longrightarrow> insertBatches records i t st = (Inr t, st)"
  by (simp add: insertBatches.simps)

lemma insertBatches_fail:
  "i < length records \<Longrightarrow> fails st
   \<Longrightarrow> insertBatches records i t st =
       (Inl StoreError,
        st\<lparr>calls := calls st @ [Insert (take batchSize (drop i records))],
           faults := tl (faults st)\<rparr>)"
  by (subst insertBatches.simps) (simp add: insertRows_fails)

lemma insertBatches_step:
  assumes "i < length records" and "\<not> fails st"
  shows "insertBatches records i t st =
       insertBatches records (i + batchSize) (t + length (take batchSize (drop i records)))
         (snd (insertRows (take batchSize (drop i records)) st))"
proof -
  obtain st' where "insertRows (take batchSize (drop i records)) st = (None, st')"
    using insertRows_succeeds(1) [OF assms(2), of "take batchSize (drop i records)"]
    by (cases "insertRows (take batchSize (drop i records)) st") simp
  with assms(1) show ?thesis
    by (subst insertBatches.simps) (simp add: Let_def)
qed

lemma fails_no_faults: "faults st = [] \<Longrightarrow> \<not> fails st"
  by (simp add: fails_def)

lemma clearExistingData_no_faults:
  "faults st = [] \<Longrightarrow> fst (clearExistingData c st) = None
     \<and> faults (snd (clearExistingData c st)) = []"
  by (simp add: clearExistingData_def deleteNeqId_def fails_def Let_def)

lemma insertBatches_no_faults:
  "faults st = [] \<Longrightarrow> \<exists>t' st'. insertBatches records i t st = (Inr t', st')"
proof (induction "length records - i" arbitrary: i t st rule: less_induct)
  case less
  show ?case
  proof (cases "i < length records")
    case False
    then show ?thesis by (simp add: insertBatches_done)
  next
    case True
    let ?batch = "take batchSize (drop i records)"
    let ?st1 = "snd (insertRows ?batch st)"
    have ok: "\<not> fails st" using less.prems by (rule fails_no_faults)
    have f1: "faults ?st1 = []"
      using insertRows_succeeds(3) [OF ok, of ?batch] less.prems by simp
    have "length records - (i + batchSize) < length records - i"
      using True by (simp add: batchSize_def)
    from less.hyps [OF this f1] show ?thesis
      using insertBatches_step [OF True ok] by simp
  qed
qed

lemma importCheckoutData_returns:
  assumes "parseRecords csv = Inr (records, d)" and "faults st = []"
  shows "fst (importCheckoutData csv st c) =
      Inr \<lparr>imported = length records, duplicatesSkipped = d, cleared = c, errors = 0,
           message = ''Data imported successfully''\<rparr>"
proof -
  obtain st1 where st1: "clearExistingData c st = (None, st1)" "faults st1 = []"
    using clearExistingData_no_faults [OF assms(2), of c]
    by (cases "clearExistingData c st") simp
  obtain t' st2 where "insertBatches records 0 0 st1 = (Inr t', st2)"
    using insertBatches_no_faults [OF st1(2)] by blast
  then show ?thesis
    using st1(1) assms(1) by (simp add: importCheckoutData_def loadRecords_def)
qed

lemma importCheckoutData_client_succeeds:
  assumes "parseRecords_client csv = Inr records" and "\<not> fails st"
  shows "fst (importCheckoutData_client csv st) =
     \<lparr>client_imported = length records, client_skipped = 0, client_errors = 0\<rparr>"
proof -
  obtain st' where "insertRows records st = (None, st')"
    using insertRows_succeeds(1) [OF assms(2), of records]
    by (cases "insertRows records st") simp
  with assms(1) show ?thesis
    by (simp add: importCheckoutData_client_def)
qed

text \<open>
  C1. Whenever the deduplicating import returns its result object, the two counts add
  up to the number of data lines that are not all-empty and have a non-empty pillar and
  a non-empty brand id after trimming.
\<close>

theorem imported_plus_duplicates:
  assumes "fst (importCheckoutData csv st c) = Inr res"
  shows "imported res + duplicatesSkipped res =
         length (filter (countedLine (headersOf csv)) (dataLines csv))"
proof -
  from assms obtain records d where p: "parseRecords csv = Inr (records, d)"
    and res: "imported res = length records" "duplicatesSkipped res = d"
    by (auto simp: importCheckoutData_def loadRecords_def
        split: prod.splits option.splits sum.splits)
  from p have "length records + d =
      length ([] :: merchant_record list) + 0
        + length (filter (countedLine (headersOf csv)) (dataLines csv))"
    unfolding parseRecords_def by (rule processLines_count)
  with res show ?thesis by simp
qed

theorem imported_plus_duplicates_witness:
  "fst (importCheckoutData dedupCsv emptyStore True) =
     Inr \<lparr>imported = 2, duplicatesSkipped = 1, cleared = True, errors = 0,
          message = ''Data imported successfully''\<rparr>
   \<and> length (filter (countedLine (headersOf dedupCsv)) (dataLines dedupCsv)) = 3"
proof -
  have p: "parseRecords dedupCsv = Inr ([exampleRecord, secondRecord], 1)" by code_simp
  have h: "fst (importCheckoutData dedupCsv emptyStore True) =
     Inr \<lparr>imported = 2, duplicatesSkipped = 1, cleared = True, errors = 0,
          message = ''Data imported successfully''\<rparr>"
    using importCheckoutData_returns [OF p, of emptyStore True]
    by (simp add: emptyStore_def)
  show ?thesis
    using imported_plus_duplicates [OF h] h by simp
qed

text \<open>
  C4, as the edge function has it. With the month written \<open>jan-25\<close>, the header
  followed twice by the row \<open>Wallets_Billing;PayChat;B1;Acme;10;1,000;jan-25\<close> is imported
  as one record and one skipped duplicate, whenever the store calls succeed.
\<close>

theorem scenario_one_imported_one_skipped:
  assumes "faults st = []"
  shows "fst (importCheckoutData hyphenCsv st c) =
     Inr \<lparr>imported = 1, duplicatesSkipped = 1, cleared = c, errors = 0,
          message = ''Data imported successfully''\<rparr>"
proof -
  have p: "parseRecords hyphenCsv = Inr ([exampleRecord], 1)" by code_simp
  show ?thesis
    using importCheckoutData_returns [OF p assms, of c] by simp
qed

theorem scenario_one_imported_one_skipped_witness:
  "faults emptyStore = []
   \<and> fst (importCheckoutData hyphenCsv emptyStore False) =
     Inr \<lparr>imported = 1, duplicatesSkipped = 1, cleared = False, errors = 0,
          message = ''Data imported successfully''\<rparr>"
proof -
  have h: "faults emptyStore = []" by (simp add: emptyStore_def)
  show ?thesis
    using scenario_one_imported_one_skipped [OF h, of False] h by simp
qed

text \<open>
  The input of the scenario as it is written, with \<open>jan_25\<close>: the edge function raises a
  \<open>TypeError\<close> at the first data line and the handler answers 500; the client library
  imports both rows.
\<close>

theorem scenario_underscore_counterexample:
  "fst (importCheckoutData scenarioCsv emptyStore False) = Inl TypeError
   \<and> fst (serve \<lparr>http_method = ''POST'', csvContent = Some scenarioCsv,
                  clearExisting = Some False\<rparr> emptyStore)
     = \<lparr>status = 500, body = Failure TypeError 0 0 1 ''Import failed''\<rparr>
   \<and> fst (importCheckoutData_client scenarioCsv emptyStore) =
       \<lparr>client_imported = 2, client_skipped = 0, client_errors = 0\<rparr>"
proof -
  have p: "parseRecords scenarioCsv = Inl TypeError" by code_simp
  have q: "scenarioCsv \<noteq> []" by code_simp
  have c: "parseRecords_client scenarioCsv =
      Inr [exampleRecord\<lparr>tpv := Num 1, date := ''25-01-01''\<rparr>,
           exampleRecord\<lparr>tpv := Num 1, date := ''25-01-01''\<rparr>]"
    by code_simp
  have f: "\<not> fails emptyStore" by (simp add: fails_def emptyStore_def)
  from p have i: "fst (importCheckoutData scenarioCsv emptyStore False) = Inl TypeError"
    by (simp add: importCheckoutData_def clearExistingData_def)
  from p q have "fst (serve \<lparr>http_method = ''POST'', csvContent = Some scenarioCsv,
                  clearExisting = Some False\<rparr> emptyStore)
     = \<lparr>status = 500, body = Failure TypeError 0 0 1 ''Import failed''\<rparr>"
    by (simp add: serve_def falsy_def str_def respond_def importCheckoutData_def
        clearExistingData_def)
  moreover have "fst (importCheckoutData_client scenarioCsv emptyStore) =
       \<lparr>client_imported = 2, client_skipped = 0, client_errors = 0\<rparr>"
    using importCheckoutData_client_succeeds [OF c f] by simp
  ultimately show ?thesis using i by simp
qed

section \<open>The purge and the key\<close>

text \<open>
  C6. When the reload flag is set and the purge call fails, the import fails at once
  with the error of that call, whatever the CSV content is: the rows of the store are
  the rows before, and the only call issued is the delete, so no insert is issued.
\<close>

theorem purge_failure_stops_import:
  assumes "fails st"
  shows "fst (importCheckoutData csv st True) = Inl StoreError
    \<and> rows (snd (importCheckoutData csv st True)) = rows st
    \<and> calls (snd (importCheckoutData csv st True)) = calls st @ [DeleteNeqId nilUuid]
    \<and> respond (fst (importCheckoutData csv st True))
        = \<lparr>status = 500, body = Failure StoreError 0 0 1 ''Import failed''\<rparr>"
  using assms
  by (simp add: importCheckoutData_def clearExistingData_def deleteNeqId_def Let_def
      respond_def)

theorem purge_failure_stops_import_witness:
  "fails (seededStore\<lparr>faults := [True]\<rparr>)
   \<and> parseRecords scenarioCsv = Inl TypeError
   \<and> fst (importCheckoutData scenarioCsv (seededStore\<lparr>faults := [True]\<rparr>) True) = Inl StoreError
   \<and> rows (snd (importCheckoutData scenarioCsv (seededStore\<lparr>faults := [True]\<rparr>) True))
       = [\<lparr>row_id = nilUuid, row_data = exampleRecord\<rparr>,
          \<lparr>row_id = ''7f9c24e8-3b12-4fef-91e0-5c1d2a6b8e34'', row_data = secondRecord\<rparr>]
   \<and> calls (snd (importCheckoutData scenarioCsv (seededStore\<lparr>faults := [True]\<rparr>) True))
       = [DeleteNeqId nilUuid]"
proof -
  have h: "fails (seededStore\<lparr>faults := [True]\<rparr>)" by (simp add: fails_def)
  have p: "parseRecords scenarioCsv = Inl TypeError" by code_simp
  show ?thesis
    using purge_failure_stops_import [OF h, of scenarioCsv] h p
    by (simp add: seededStore_def emptyStore_def)
qed

text \<open>
  C10. A purge that succeeds keeps exactly the rows whose id is the nil UUID, unchanged
  and in their order, and deletes every other row: it is the filter \<open>id <> nil\<close>, not
  an unconditional delete.
\<close>

theorem purge_keeps_nil_uuid_rows:
  assumes "\<not> fails st"
  shows "fst (clearExistingData True st) = None
    \<and> rows (snd (clearExistingData True st)) = filter (\<lambda>r. row_id r = nilUuid) (rows st)
    \<and> calls (snd (clearExistingData True st)) = calls st @ [DeleteNeqId nilUuid]"
  using assms by (simp add: clearExistingData_def deleteNeqId_def Let_def)

theorem purge_keeps_nil_uuid_rows_witness:
  "\<not> fails seededStore
   \<and> rows (snd (clearExistingData True seededStore))
       = [\<lparr>row_id = nilUuid, row_data = exampleRecord\<rparr>]"
proof -
  have h: "\<not> fails seededStore" by (simp add: fails_def seededStore_def emptyStore_def)
  have n: "''7f9c24e8-3b12-4fef-91e0-5c1d2a6b8e34'' \<noteq> nilUuid" by (simp add: nilUuid_def)
  show ?thesis
    using purge_keeps_nil_uuid_rows [OF h] h n
    by (simp add: seededStore_def emptyStore_def)
qed

text \<open>
  C9. The key is the pillar, brand id, merchant name, product type and date joined by
  \<open>-\<close>, and two different identity tuples can give one key: the rows with pillar
  \<open>a-b\<close>, brand id \<open>c\<close> and with pillar \<open>a\<close>, brand id \<open>b-c\<close> do, and the second is
  dropped and counted as a duplicate.
\<close>

theorem key_collision:
  "uniqueKey collisionSecondRow ''2025-01-01'' = ''a-b-c-M-T-2025-01-01''
   \<and> makeRecord collisionSecondRow ''2025-01-01'' = Inr collisionSecond
   \<and> identity collisionFirst \<noteq> identity collisionSecond
   \<and> recordKey collisionFirst = recordKey collisionSecond
   \<and> parseRecords collisionCsv = Inr ([collisionFirst], 1)
   \<and> fst (importCheckoutData collisionCsv emptyStore False) =
       Inr \<lparr>imported = 1, duplicatesSkipped = 1, cleared = False, errors = 0,
            message = ''Data imported successfully''\<rparr>"
proof -
  have p: "parseRecords collisionCsv = Inr ([collisionFirst], 1)" by code_simp
  have k: "uniqueKey collisionSecondRow ''2025-01-01'' = ''a-b-c-M-T-2025-01-01''"
    by code_simp
  have m: "makeRecord collisionSecondRow ''2025-01-01'' = Inr collisionSecond" by code_simp
  have i: "identity collisionFirst \<noteq> identity collisionSecond" by code_simp
  have r: "recordKey collisionFirst = recordKey collisionSecond" by code_simp
  have "fst (importCheckoutData collisionCsv emptyStore False) =
       Inr \<lparr>imported = 1, duplicatesSkipped = 1, cleared = False, errors = 0,
            message = ''Data imported successfully''\<rparr>"
    using importCheckoutData_returns [OF p, of emptyStore False]
    by (simp add: emptyStore_def)
  with p k m i r show ?thesis by simp
qed

section \<open>The batch loader on 1200 records\<close>

lemma first_two_batches:
  assumes len: "length records = 1200" and ok: "\<not> fails st"
  shows "insertBatches records 0 0 st =
         insertBatches records 500 500 (snd (insertRows (take 500 records) st))"
  using insertBatches_step [of 0 records st 0] len ok by (simp add: batchSize_def)

lemma second_batch_fails:
  assumes len: "length records = 1200" and f: "faults st = False # True # fs"
  shows "fst (insertBatches records 0 0 st) = Inl StoreError"
    and "calls (snd (insertBatches records 0 0 st)) =
           calls st @ [Insert (take 500 records), Insert (take 500 (drop 500 records))]"
    and "map row_data (rows (snd (insertBatches records 0 0 st))) =
           map row_data (rows st) @ take 500 records"
proof -
  let ?st1 = "snd (insertRows (take 500 records) st)"
  have ok: "\<not> fails st" using f by (simp add: fails_def)
  have st1: "faults ?st1 = True # fs" "calls ?st1 = calls st @ [Insert (take 500 records)]"
      "map row_data (rows ?st1) = map row_data (rows st) @ take 500 records"
    using insertRows_succeeds [OF ok, of "take 500 records"] f by simp_all
  then have bad: "fails ?st1" by (simp add: fails_def)
  have "insertBatches records 0 0 st =
        (Inl StoreError,
         ?st1\<lparr>calls := calls ?st1 @ [Insert (take batchSize (drop 500 records))],
               faults := tl (faults ?st1)\<rparr>)"
    using first_two_batches [OF len ok] insertBatches_fail [of 500 records ?st1 500] len bad
    by simp
  then show "fst (insertBatches records 0 0 st) = Inl StoreError"
    and "calls (snd (insertBatches records 0 0 st)) =
           calls st @ [Insert (take 500 records), Insert (take 500 (drop 500 records))]"
    and "map row_data (rows (snd (insertBatches records 0 0 st))) =
           map row_data (rows st) @ take 500 records"
    using st1 by (simp_all add: batchSize_def)
qed

lemma all_batches_succeed:
  assumes len: "length records = 1200" and f: "faults st = []"
  shows "fst (insertBatches records 0 0 st) = Inr 1200"
    and "calls (snd (insertBatches records 0 0 st)) =
           calls st @ [Insert (take 500 records), Insert (take 500 (drop 500 records)),
                       Insert (drop 1000 records)]"
    and "map row_data (rows (snd (insertBatches records 0 0 st))) =
           map row_data (rows st) @ records"
proof -
  let ?b1 = "take 500 records" and ?b2 = "take 500 (drop 500 records)"
    and ?b3 = "drop 1000 records"
  let ?st1 = "snd (insertRows ?b1 st)"
  let ?st2 = "snd (insertRows ?b2 ?st1)"
  let ?st3 = "snd (insertRows ?b3 ?st2)"
  have ok: "\<not> fails st" using f by (simp add: fails_def)
  have st1: "faults ?st1 = []" "calls ?st1 = calls st @ [Insert ?b1]"
      "map row_data (rows ?st1) = map row_data (rows st) @ ?b1"
    using insertRows_succeeds [OF ok, of ?b1] f by simp_all
  then have ok1: "\<not> fails ?st1" by (simp add: fails_def)
  have st2: "faults ?st2 = []" "calls ?st2 = calls st @ [Insert ?b1, Insert ?b2]"
      "map row_data (rows ?st2) = map row_data (rows st) @ ?b1 @ ?b2"
    using insertRows_succeeds [OF ok1, of ?b2] st1 by simp_all
  then have ok2: "\<not> fails ?st2" by (simp add: fails_def)
  have st3: "calls ?st3 = calls st @ [Insert ?b1, Insert ?b2, Insert ?b3]"
      "map row_data (rows ?st3) = map row_data (rows st) @ ?b1 @ ?b2 @ ?b3"
    using insertRows_succeeds [OF ok2, of ?b3] st2 by simp_all
  have parts: "?b1 @ ?b2 @ ?b3 = records"
  proof -
    have "?b2 @ ?b3 = drop 500 records"
      using append_take_drop_id [of 500 "drop 500 records"] by simp
    then show ?thesis by simp
  qed
  have "insertBatches records 0 0 st = insertBatches records 500 500 ?st1"
    by (rule first_two_batches [OF len ok])
  also have "\<dots> = insertBatches records 1000 1000 ?st2"
    using insertBatches_step [of 500 records ?st1 500] len ok1 by (simp add: batchSize_def)
  also have "\<dots> = insertBatches records 1500 1200 ?st3"
    using insertBatches_step [of 1000 records ?st2 1000] len ok2 by (simp add: batchSize_def)
  also have "\<dots> = (Inr 1200, ?st3)"
    using len by (simp add: insertBatches_done)
  finally have r: "insertBatches records 0 0 st = (Inr 1200, ?st3)" .
  show "fst (insertBatches records 0 0 st) = Inr 1200"
    and "calls (snd (insertBatches records 0 0 st)) =
           calls st @ [Insert ?b1, Insert ?b2, Insert ?b3]"
    and "map row_data (rows (snd (insertBatches records 0 0 st))) =
           map row_data (rows st) @ records"
    using st3 parts by (simp_all add: r)
qed

lemma loadRecords_outcome:
  "fst (loadRecords records d c st) =
     (case fst (insertBatches records 0 0 st) of
        Inl e \<Rightarrow> Inl e
      | Inr totalInserted \<Rightarrow>
          Inr \<lparr>imported = length records, duplicatesSkipped = d, cleared = c, errors = 0,
               message = ''Data imported successfully''\<rparr>)"
  and loadRecords_store:
  "snd (loadRecords records d c st) = snd (insertBatches records 0 0 st)"
  by (simp_all add: loadRecords_def split: prod.splits sum.splits)

text \<open>After the parse, the handler answers with the outcome of the loader.\<close>

lemma serve_after_parse:
  assumes "parseRecords csv = Inr (records, d)" and "csv \<noteq> []" and "m \<noteq> ''OPTIONS''"
  shows "serve \<lparr>http_method = m, csvContent = Some csv, clearExisting = Some False\<rparr> st =
     (respond (fst (loadRecords records d False st)), snd (loadRecords records d False st))"
  using assms
  by (simp add: serve_def falsy_def str_def importCheckoutData_def clearExistingData_def
      split: prod.splits)

lemma length_records1200: "length records1200 = 1200"
  by (simp add: records1200_def)

text \<open>
  C5, as the code has it. Given 1200 records, the loader issues three insert calls, of
  the first 500, the next 500 and the last 200 records. If the second call fails, no
  third call is issued, the import throws, the rows of the first batch stay in the
  store, and the handler answers 500 with \<open>imported: 0\<close>: a failed import reports no
  partial count.
\<close>

theorem three_batches_second_failing:
  assumes "length records = 1200"
  shows "fst (loadRecords records d c (st\<lparr>faults := []\<rparr>)) =
       Inr \<lparr>imported = 1200, duplicatesSkipped = d, cleared = c, errors = 0,
            message = ''Data imported successfully''\<rparr>
    \<and> calls (snd (loadRecords records d c (st\<lparr>faults := []\<rparr>))) =
       calls st @ [Insert (take 500 records), Insert (take 500 (drop 500 records)),
                   Insert (drop 1000 records)]
    \<and> map length [take 500 records, take 500 (drop 500 records), drop 1000 records]
       = [500, 500, 200]
    \<and> fst (loadRecords records d c (st\<lparr>faults := [False, True]\<rparr>)) = Inl StoreError
    \<and> calls (snd (loadRecords records d c (st\<lparr>faults := [False, True]\<rparr>))) =
       calls st @ [Insert (take 500 records), Insert (take 500 (drop 500 records))]
    \<and> map row_data (rows (snd (loadRecords records d c (st\<lparr>faults := [False, True]\<rparr>)))) =
       map row_data (rows st) @ take 500 records
    \<and> respond (fst (loadRecords records d c (st\<lparr>faults := [False, True]\<rparr>))) =
       \<lparr>status = 500, body = Failure StoreError 0 0 1 ''Import failed''\<rparr>"
proof -
  have good: "faults (st\<lparr>faults := []\<rparr>) = []"
    and bad: "faults (st\<lparr>faults := [False, True]\<rparr>) = False # True # []"
    by simp_all
  show ?thesis
    using all_batches_succeed [OF assms good] second_batch_fails [OF assms bad] assms
    by (simp add: loadRecords_outcome loadRecords_store respond_def)
qed

theorem three_batches_second_failing_witness:
  "length records1200 = 1200
   \<and> fst (loadRecords records1200 0 False (emptyStore\<lparr>faults := []\<rparr>)) =
       Inr \<lparr>imported = 1200, duplicatesSkipped = 0, cleared = False, errors = 0,
            message = ''Data imported successfully''\<rparr>
   \<and> fst (loadRecords records1200 0 False (emptyStore\<lparr>faults := [False, True]\<rparr>))
       = Inl StoreError
   \<and> calls (snd (loadRecords records1200 0 False (emptyStore\<lparr>faults := [False, True]\<rparr>))) =
       [Insert (take 500 records1200), Insert (take 500 (drop 500 records1200))]"
  using three_batches_second_failing [OF length_records1200, of 0 False emptyStore]
    length_records1200
  by (simp add: emptyStore_def)

text \<open>The count that the failed import reports is 0, not the 500 rows of the first batch.\<close>

theorem reported_count_counterexample:
  "fst (loadRecords records1200 0 False (emptyStore\<lparr>faults := [False, True]\<rparr>)) = Inl StoreError
   \<and> failure_imported
       (body (respond (fst (loadRecords records1200 0 False
                              (emptyStore\<lparr>faults := [False, True]\<rparr>))))) = 0
   \<and> length (rows (snd (loadRecords records1200 0 False
                           (emptyStore\<lparr>faults := [False, True]\<rparr>)))) = 500"
proof -
  have bad: "faults (emptyStore\<lparr>faults := [False, True]\<rparr>) = False # True # []"
    by simp
  have "length (map row_data (rows (snd (loadRecords records1200 0 False
                           (emptyStore\<lparr>faults := [False, True]\<rparr>))))) = 500"
    using second_batch_fails(3) [OF length_records1200 bad] length_records1200
    by (simp add: loadRecords_store emptyStore_def)
  then show ?thesis
    using second_batch_fails(1) [OF length_records1200 bad]
    by (simp add: loadRecords_outcome respond_def)
qed

end
